theory Spec2Isabelle
  imports Complex_Main "HOL-Library.Word"
begin

unbundle bit_operations_syntax

section \<open>The credential generator: MD5 hex digest of the username\<close>

text \<open>
  Both programs derive the credential with \<^verbatim>\<open>hashlib.md5\<close>:
  \<^verbatim>\<open>
  def generate_key(username):
      md5 = hashlib.md5()
      md5.update(username.encode('utf-8'))
      return md5.hexdigest()
  \<close>
  A Python \<^verbatim>\<open>str\<close> is modelled by the \<open>string\<close> of its UTF-8 bytes (one \<open>char\<close> per
  byte), so \<^verbatim>\<open>encode('utf-8')\<close> reads the bytes off. The hash object is modelled by the
  bytes fed to it so far; \<^verbatim>\<open>hexdigest\<close> runs the MD5 algorithm of RFC 1321 on them.
\<close>

type_synonym byte = "8 word"
type_synonym u32 = "32 word"

definition encode_utf8 :: "string \<Rightarrow> byte list" where
  "encode_utf8 s = map (\<lambda>c. of_nat (of_char c)) s"

definition md5_K :: "u32 list" where
  "md5_K =
   [0xD76AA478, 0xE8C7B756, 0x242070DB, 0xC1BDCEEE, 0xF57C0FAF, 0x4787C62A, 0xA8304613, 0xFD469501,
    0x698098D8, 0x8B44F7AF, 0xFFFF5BB1, 0x895CD7BE, 0x6B901122, 0xFD987193, 0xA679438E, 0x49B40821,
    0xF61E2562, 0xC040B340, 0x265E5A51, 0xE9B6C7AA, 0xD62F105D, 0x02441453, 0xD8A1E681, 0xE7D3FBC8,
    0x21E1CDE6, 0xC33707D6, 0xF4D50D87, 0x455A14ED, 0xA9E3E905, 0xFCEFA3F8, 0x676F02D9, 0x8D2A4C8A,
    0xFFFA3942, 0x8771F681, 0x6D9D6122, 0xFDE5380C, 0xA4BEEA44, 0x4BDECFA9, 0xF6BB4B60, 0xBEBFBC70,
    0x289B7EC6, 0xEAA127FA, 0xD4EF3085, 0x04881D05, 0xD9D4D039, 0xE6DB99E5, 0x1FA27CF8, 0xC4AC5665,
    0xF4292244, 0x432AFF97, 0xAB9423A7, 0xFC93A039, 0x655B59C3, 0x8F0CCC92, 0xFFEFF47D, 0x85845DD1,
    0x6FA87E4F, 0xFE2CE6E0, 0xA3014314, 0x4E0811A1, 0xF7537E82, 0xBD3AF235, 0x2AD7D2BB, 0xEB86D391]"

definition md5_S :: "nat list" where
  "md5_S =
   [7, 12, 17, 22, 7, 12, 17, 22, 7, 12, 17, 22, 7, 12, 17, 22,
    5, 9, 14, 20, 5, 9, 14, 20, 5, 9, 14, 20, 5, 9, 14, 20,
    4, 11, 16, 23, 4, 11, 16, 23, 4, 11, 16, 23, 4, 11, 16, 23,
    6, 10, 15, 21, 6, 10, 15, 21, 6, 10, 15, 21, 6, 10, 15, 21]"

definition rotl32 :: "nat \<Rightarrow> u32 \<Rightarrow> u32" where
  "rotl32 n w = (push_bit n w) OR (drop_bit (32 - n) w)"

text \<open>Little-endian packing of bytes into words and back.\<close>

fun le_word :: "byte list \<Rightarrow> u32" where
  "le_word [] = 0"
| "le_word (b # bs) = ucast b OR push_bit 8 (le_word bs)"

fun chunks :: "nat \<Rightarrow> 'a list \<Rightarrow> 'a list list" where
  "chunks n [] = []"
| "chunks n (x # xs) =
     (if n = 0 then [] else take n (x # xs) # chunks n (drop n (x # xs)))"

definition le_bytes :: "nat \<Rightarrow> 'a::len word \<Rightarrow> byte list" where
  "le_bytes k w = map (\<lambda>i. ucast (drop_bit (8 * i) w)) [0..<k]"

definition md5_pad :: "byte list \<Rightarrow> byte list" where
  "md5_pad m =
     m @ [0x80] @ replicate ((55 + 64 - length m mod 64) mod 64) 0
       @ le_bytes 8 (of_nat (8 * length m) :: 64 word)"

text \<open>One of the 64 steps on the working registers \<open>(a, b, c, d)\<close> for the block \<open>ws\<close>.\<close>

definition md5_step :: "u32 list \<Rightarrow> u32 \<times> u32 \<times> u32 \<times> u32 \<Rightarrow> nat \<Rightarrow> u32 \<times> u32 \<times> u32 \<times> u32" where
  "md5_step ws st i =
     (case st of (a, b, c, d) \<Rightarrow>
        let (f, g) =
              (if i < 16 then ((b AND c) OR (NOT b AND d), i)
               else if i < 32 then ((d AND b) OR (NOT d AND c), (5 * i + 1) mod 16)
               else if i < 48 then (b XOR c XOR d, (3 * i + 5) mod 16)
               else (c XOR (b OR NOT d), (7 * i) mod 16));
            f' = f + a + md5_K ! i + ws ! g
        in (d, b + rotl32 (md5_S ! i) f', b, c))"

definition md5_block :: "u32 \<times> u32 \<times> u32 \<times> u32 \<Rightarrow> byte list \<Rightarrow> u32 \<times> u32 \<times> u32 \<times> u32" where
  "md5_block h blk =
     (case h of (a0, b0, c0, d0) \<Rightarrow>
        (case foldl (md5_step (map le_word (chunks 4 blk))) h [0..<64] of
           (a, b, c, d) \<Rightarrow> (a0 + a, b0 + b, c0 + c, d0 + d)))"

definition md5_digest :: "byte list \<Rightarrow> byte list" where
  "md5_digest m =
     (case foldl md5_block (0x67452301, 0xEFCDAB89, 0x98BADCFE, 0x10325476) (chunks 64 (md5_pad m)) of
        (a, b, c, d) \<Rightarrow> concat (map (le_bytes 4) [a, b, c, d]))"

definition hex_digit :: "nat \<Rightarrow> char" where
  "hex_digit n = ''0123456789abcdef'' ! (n mod 16)"

definition hexlify :: "byte list \<Rightarrow> string" where
  "hexlify bs = concat (map (\<lambda>b. [hex_digit (unat b div 16), hex_digit (unat b)]) bs)"

text \<open>The hash object: \<^verbatim>\<open>hashlib.md5()\<close>, \<^verbatim>\<open>update\<close> and \<^verbatim>\<open>hexdigest\<close>.\<close>

definition md5_new :: "byte list" where
  "md5_new = []"

definition md5_update :: "byte list \<Rightarrow> byte list \<Rightarrow> byte list" where
  "md5_update h bs = h @ bs"

definition md5_hexdigest :: "byte list \<Rightarrow> string" where
  "md5_hexdigest h = hexlify (md5_digest h)"

text \<open>Client.py, \<^verbatim>\<open>generate_key\<close>.\<close>

definition generate_key :: "string \<Rightarrow> string" where
  "generate_key username =
     (let md5 = md5_new;
          md5 = md5_update md5 (encode_utf8 username)
      in md5_hexdigest md5)"

text \<open>Server.py, \<^verbatim>\<open>ClientHandler.generate_key\<close> (a static method).\<close>

definition ClientHandler_generate_key :: "string \<Rightarrow> string" where
  "ClientHandler_generate_key username =
     (let md5 = md5_new;
          md5 = md5_update md5 (encode_utf8 username)
      in md5_hexdigest md5)"

section \<open>Values on the wire and exceptions\<close>

text \<open>
  Messages are JSON texts produced by \<^verbatim>\<open>json.dumps\<close> and read back by \<^verbatim>\<open>json.loads\<close>. The
  model works on the parsed value: an object is the list of its items, as \<^verbatim>\<open>dict.items()\<close>
  gives them. Numbers are restricted to integers.
\<close>

datatype json =
    JNull
  | JBool bool
  | JNum int
  | JStr string
  | JArr "json list"
  | JObj "(string \<times> json) list"

text \<open>The exceptions that the two programs can meet; \<^verbatim>\<open>OSError\<close> carries its \<^verbatim>\<open>errno\<close>.\<close>

datatype error =
    TypeError
  | AttributeError
  | ValueError
  | KeyError
  | OverflowError
  | UnicodeDecodeError
  | JSONDecodeError
  | ConnectionRefusedError
  | OSError "int option"

text \<open>
  Whether bytes are well-formed UTF-8, that is, whether \<^verbatim>\<open>bytes.decode()\<close> returns rather
  than raising \<^verbatim>\<open>UnicodeDecodeError\<close>: no overlong form, no surrogate, nothing above U+10FFFF.
\<close>

definition cont_byte :: "byte \<Rightarrow> bool" where
  "cont_byte b = (0x80 \<le> b \<and> b \<le> 0xBF)"

fun utf8_valid :: "byte list \<Rightarrow> bool" where
  "utf8_valid [] = True"
| "utf8_valid [b] = (b < 0x80)"
| "utf8_valid [b, c1] =
     (if b < 0x80 then utf8_valid [c1] else 0xC2 \<le> b \<and> b \<le> 0xDF \<and> cont_byte c1)"
| "utf8_valid [b, c1, c2] =
     (if b < 0x80 then utf8_valid [c1, c2]
      else if 0xC2 \<le> b \<and> b \<le> 0xDF then cont_byte c1 \<and> utf8_valid [c2]
      else 0xE0 \<le> b \<and> b \<le> 0xEF \<and> cont_byte c1 \<and> cont_byte c2
           \<and> (b = 0xE0 \<longrightarrow> 0xA0 \<le> c1) \<and> (b = 0xED \<longrightarrow> c1 \<le> 0x9F))"
| "utf8_valid (b # c1 # c2 # c3 # bs) =
     (if b < 0x80 then utf8_valid (c1 # c2 # c3 # bs)
      else if 0xC2 \<le> b \<and> b \<le> 0xDF then cont_byte c1 \<and> utf8_valid (c2 # c3 # bs)
      else if 0xE0 \<le> b \<and> b \<le> 0xEF then
        cont_byte c1 \<and> cont_byte c2
        \<and> (b = 0xE0 \<longrightarrow> 0xA0 \<le> c1) \<and> (b = 0xED \<longrightarrow> c1 \<le> 0x9F)
        \<and> utf8_valid (c3 # bs)
      else 0xF0 \<le> b \<and> b \<le> 0xF4 \<and> cont_byte c1 \<and> cont_byte c2 \<and> cont_byte c3
           \<and> (b = 0xF0 \<longrightarrow> 0x90 \<le> c1) \<and> (b = 0xF4 \<longrightarrow> c1 \<le> 0x8F)
           \<and> utf8_valid bs)"

section \<open>Dates and times\<close>

text \<open>
  A naive \<^verbatim>\<open>datetime\<close> is modelled by its distance from 1970-01-01T00:00:00 in microseconds,
  a \<^verbatim>\<open>timedelta\<close> by its length in microseconds. \<^verbatim>\<open>datetime\<close> covers the years 1 to 9999
  and \<^verbatim>\<open>timedelta\<close> at most 999999999 days either way; the constructor and the addition raise
  \<^verbatim>\<open>OverflowError\<close> outside.
\<close>

type_synonym datetime = int

definition datetime_min :: datetime where
  "datetime_min = - 62135596800000000"

definition datetime_max :: datetime where
  "datetime_max = 253402300799999999"

text \<open>\<^verbatim>\<open>timedelta(seconds=n)\<close> for an integer \<open>n\<close>.\<close>

definition timedelta_seconds :: "int \<Rightarrow> error + int" where
  "timedelta_seconds n =
     (if - 999999999 \<le> n div 86400 \<and> n div 86400 \<le> 999999999
      then Inr (1000000 * n) else Inl OverflowError)"

text \<open>\<^verbatim>\<open>datetime + timedelta\<close>.\<close>

definition datetime_add :: "datetime \<Rightarrow> int \<Rightarrow> error + datetime" where
  "datetime_add t d =
     (if datetime_min \<le> t + d \<and> t + d \<le> datetime_max then Inr (t + d) else Inl OverflowError)"

text \<open>
  \<^verbatim>\<open>datetime.now() + timedelta(seconds=validation_time)\<close>, the expression of
  \<^verbatim>\<open>calculate_expiry_date\<close> and of line 213 of \<^verbatim>\<open>handle_request\<close>, at the clock reading \<open>now\<close>.
\<close>

definition calculate_expiry_date :: "datetime \<Rightarrow> int \<Rightarrow> error + datetime" where
  "calculate_expiry_date now validation_time =
     (case timedelta_seconds validation_time of
        Inl e \<Rightarrow> Inl e
      | Inr d \<Rightarrow> datetime_add now d)"

text \<open>The proleptic Gregorian calendar: day number since 1970-01-01 to (year, month, day).\<close>

definition civil_from_days :: "int \<Rightarrow> int \<times> int \<times> int" where
  "civil_from_days z0 =
     (let z = z0 + 719468;
          era = z div 146097;
          doe = z - era * 146097;
          yoe = (doe - doe div 1460 + doe div 36524 - doe div 146096) div 365;
          doy = doe - (365 * yoe + yoe div 4 - yoe div 100);
          mp = (5 * doy + 2) div 153;
          d = doy - (153 * mp + 2) div 5 + 1;
          m = (if mp < 10 then mp + 3 else mp - 9);
          y = yoe + era * 400 + (if m \<le> 2 then 1 else 0)
      in (y, m, d))"

definition days_from_civil :: "int \<Rightarrow> int \<Rightarrow> int \<Rightarrow> int" where
  "days_from_civil y0 m d =
     (let y = (if m \<le> 2 then y0 - 1 else y0);
          era = y div 400;
          yoe = y - era * 400;
          doy = (153 * (if m > 2 then m - 3 else m + 9) + 2) div 5 + d - 1;
          doe = yoe * 365 + yoe div 4 - yoe div 100 + doy
      in era * 146097 + doe - 719468)"

definition digit_char :: "int \<Rightarrow> char" where
  "digit_char n = ''0123456789'' ! nat (n mod 10)"

text \<open>\<open>zero_pad k n\<close> is \<^verbatim>\<open>'%0kd' % n\<close> for \<open>0 \<le> n < 10 ^ k\<close>.\<close>

fun zero_pad :: "nat \<Rightarrow> int \<Rightarrow> string" where
  "zero_pad 0 n = []"
| "zero_pad (Suc k) n = zero_pad k (n div 10) @ [digit_char n]"

text \<open>
  \<^verbatim>\<open>datetime.isoformat()\<close> of a naive value: \<^verbatim>\<open>YYYY-MM-DDTHH:MM:SS\<close>, followed by
  \<^verbatim>\<open>.ffffff\<close> when the microsecond field is not zero.
\<close>

definition isoformat :: "datetime \<Rightarrow> string" where
  "isoformat t =
     (let days = t div 86400000000;
          rest = t mod 86400000000;
          (y, m, d) = civil_from_days days;
          secs = rest div 1000000;
          us = rest mod 1000000
      in zero_pad 4 y @ ''-'' @ zero_pad 2 m @ ''-'' @ zero_pad 2 d @ ''T''
         @ zero_pad 2 (secs div 3600) @ '':'' @ zero_pad 2 (secs div 60 mod 60) @ '':''
         @ zero_pad 2 (secs mod 60)
         @ (if us = 0 then [] else ''.'' @ zero_pad 6 us))"

section \<open>Server.py: the data model\<close>

text \<open>
  \<^verbatim>\<open>class Response\<close> of Server.py; the fields carry the prefix \<open>r_\<close>. The holder name is
  whatever value the request carried. The constructor turns the expiry into its ISO text:
  \<^verbatim>\<open>self.expired = expired.isoformat() if expired is not None else None\<close>
\<close>

record Response =
  r_license_user_name :: json
  r_license_valid :: bool
  r_description :: string
  r_expired :: "string option"

definition Response_init :: "json \<Rightarrow> bool \<Rightarrow> string \<Rightarrow> datetime option \<Rightarrow> Response" where
  "Response_init name valid descr expired_at =
     \<lparr> r_license_user_name = name,
       r_license_valid = valid,
       r_description = descr,
       r_expired = (case expired_at of Some e \<Rightarrow> Some (isoformat e) | None \<Rightarrow> None) \<rparr>"

definition to_dict :: "Response \<Rightarrow> json" where
  "to_dict r =
     JObj [(''license_user_name'', r_license_user_name r),
           (''license_valid'', JBool (r_license_valid r)),
           (''description'', JStr (r_description r)),
           (''expired'', (case r_expired r of Some s \<Rightarrow> JStr s | None \<Rightarrow> JNull))]"

text \<open>
  \<^verbatim>\<open>class Request\<close>; the fields carry the prefix \<open>rq_\<close> and hold the two values of the decoded
  message, of any JSON type.
\<close>

record Request =
  rq_license_user_name :: json
  rq_license_key :: json

text \<open>\<^verbatim>\<open>class LicenseInfo\<close>, with the names of its properties.\<close>

record LicenseInfo =
  license_user_name :: string
  validation_time :: int
  expiry_time :: "datetime option"
  is_used :: bool

definition LicenseInfo_init :: "string \<Rightarrow> int \<Rightarrow> LicenseInfo" where
  "LicenseInfo_init name vt =
     \<lparr> license_user_name = name, validation_time = vt, expiry_time = None, is_used = False \<rparr>"

type_synonym licenses = "string \<rightharpoonup> LicenseInfo"

text \<open>
  \<^verbatim>\<open>LicenseServer.load_licenses\<close>, on the items of the roster's \<^verbatim>\<open>payload\<close>, with names that
  are strings and validation times that are integers. An item may lack either key:
  \<^verbatim>\<open>
  license_user_name = item.get("LicenceUserName", "")
  validation_time = item.get("ValidationTime", 0)
  license_info = LicenseInfo(license_user_name=license_user_name, validation_time=validation_time)
  self.licenses[license_user_name] = license_info
  \<close>
\<close>

definition load_item :: "licenses \<Rightarrow> string option \<times> int option \<Rightarrow> licenses" where
  "load_item ls item =
     (let name = (case fst item of Some n \<Rightarrow> n | None \<Rightarrow> []);
          vt = (case snd item of Some v \<Rightarrow> v | None \<Rightarrow> 0);
          license_info = LicenseInfo_init name vt
      in ls(name \<mapsto> license_info))"

definition load_licenses :: "(string option \<times> int option) list \<Rightarrow> licenses" where
  "load_licenses payload = foldl load_item Map.empty payload"

section \<open>Server.py: issuing and reclaiming leases\<close>

definition expired_before :: "LicenseInfo \<Rightarrow> datetime \<Rightarrow> bool" where
  "expired_before license_info now =
     (case expiry_time license_info of None \<Rightarrow> False | Some e \<Rightarrow> e < now)"

text \<open>
  \<^verbatim>\<open>ClientHandler.handle_request\<close>. The result is the lease table after the call, and either
  the response that the method sends (as \<^verbatim>\<open>json.dumps(response.to_dict())\<close>) or the exception
  that leaves it, in which case nothing is sent. The method reads the clock up to twice:
  \<open>now1\<close> is the reading compared with the stored expiry (line 211, taken only when the
  record is in use and has an expiry), \<open>now2\<close> the reading from which the new expiry is
  computed (line 213). The table is looked up with \<^verbatim>\<open>self.licenses.get\<close>: its keys are
  strings, so a name of another hashable type finds nothing, and a list or an object is
  unhashable (\<^verbatim>\<open>TypeError\<close>). The record is an object held by the table, so line 212
  changes the table at once, before line 213 can raise:
  \<^verbatim>\<open>
  license_info.is_used = True
  license_info.expiry_time = datetime.now() + timedelta(seconds=license_info.validation_time)
  self.licenses[request.license_user_name] = license_info
  \<close>
\<close>

definition handle_request ::
  "licenses \<Rightarrow> Request \<Rightarrow> datetime \<Rightarrow> datetime \<Rightarrow> licenses \<times> (error + Response)" where
  "handle_request ls request now1 now2 =
     (case rq_license_user_name request of
        JArr _ \<Rightarrow> (ls, Inl TypeError)
      | JObj _ \<Rightarrow> (ls, Inl TypeError)
      | JStr name \<Rightarrow>
          (case ls name of
             None \<Rightarrow>
               (ls, Inr (Response_init (rq_license_user_name request) False ''Token not found''
                          None))
           | Some license_info \<Rightarrow>
               (let generated_key = ClientHandler_generate_key name in
                if JStr generated_key \<noteq> rq_license_key request then
                  (ls, Inr (Response_init (rq_license_user_name request) False ''Invalid key''
                             None))
                else if \<not> is_used license_info \<or> expired_before license_info now1 then
                  (let license_info = license_info\<lparr>is_used := True\<rparr>;
                       ls = ls(name \<mapsto> license_info)
                   in case calculate_expiry_date now2 (validation_time license_info) of
                        Inl e \<Rightarrow> (ls, Inl e)
                      | Inr expiry \<Rightarrow>
                          (let license_info = license_info\<lparr>expiry_time := Some expiry\<rparr>;
                               ls = ls(name \<mapsto> license_info)
                           in (ls, Inr (Response_init (rq_license_user_name request) True
                                          ''License issued'' (expiry_time license_info)))))
                else
                  (ls, Inr (Response_init (rq_license_user_name request) True
                              ''License already in use'' (expiry_time license_info)))))
      | _ \<Rightarrow>
          (ls, Inr (Response_init (rq_license_user_name request) False ''Token not found''
                     None)))"

text \<open>
  \<^verbatim>\<open>ClientHandler.run\<close>, on what \<^verbatim>\<open>sock.recv(1024).decode('utf-8')\<close> and \<^verbatim>\<open>json.loads\<close> make of
  the connection: an exception, or the decoded value.
  \<^verbatim>\<open>
  data = sock.recv(1024).decode('utf-8')
  request = json.loads(data)
  print(f"Received a request from: {request['license_user_name']}")
  response = self.handle_request(Request(**request))
  \<close>
  \<^verbatim>\<open>handle_request\<close> returns nothing, so \<^verbatim>\<open>run\<close> sends nothing of its own; every exception
  is caught and printed.
\<close>

datatype received = RecvRaised error | Value json

definition Request_params :: "string list" where
  "Request_params = [''license_user_name'', ''license_key'']"

definition Request_kwargs :: "(string \<times> json) list \<Rightarrow> error + Request" where
  "Request_kwargs items =
     (if list_all (\<lambda>k. k \<in> set Request_params) (map fst items)
         \<and> list_all (\<lambda>k. k \<in> set (map fst items)) Request_params
      then (case (map_of items ''license_user_name'', map_of items ''license_key'') of
              (Some n, Some k) \<Rightarrow> Inr \<lparr> rq_license_user_name = n, rq_license_key = k \<rparr>
            | _ \<Rightarrow> Inl TypeError)
      else Inl TypeError)"

definition ClientHandler_run ::
  "licenses \<Rightarrow> received \<Rightarrow> datetime \<Rightarrow> datetime \<Rightarrow> licenses \<times> (error + Response)" where
  "ClientHandler_run ls rcv now1 now2 =
     (case rcv of
        RecvRaised e \<Rightarrow> (ls, Inl e)
      | Value (JObj items) \<Rightarrow>
          (case map_of items ''license_user_name'' of
             None \<Rightarrow> (ls, Inl KeyError)
           | Some _ \<Rightarrow>
               (case Request_kwargs items of
                  Inl e \<Rightarrow> (ls, Inl e)
                | Inr request \<Rightarrow> handle_request ls request now1 now2))
      | Value _ \<Rightarrow> (ls, Inl TypeError))"

text \<open>
  One pass of the loop of \<^verbatim>\<open>LicenseServer.schedule_license_expiry_check\<close>, at the clock
  reading \<open>now\<close>:
  \<^verbatim>\<open>
  for license_t in self.licenses.values():
      if license_t.expiry_time and license_t.expiry_time < now and license_t.is_used:
          license_t.is_used = False
  \<close>
  The loop itself never ends; \<open>schedule_license_expiry_check\<close> runs the passes made at
  the readings given.
\<close>

definition expiry_check_one :: "datetime \<Rightarrow> LicenseInfo \<Rightarrow> LicenseInfo" where
  "expiry_check_one now license_t =
     (if expired_before license_t now \<and> is_used license_t
      then license_t\<lparr>is_used := False\<rparr> else license_t)"

definition expiry_check_pass :: "datetime \<Rightarrow> licenses \<Rightarrow> licenses" where
  "expiry_check_pass now ls = (\<lambda>k. map_option (expiry_check_one now) (ls k))"

definition schedule_license_expiry_check :: "datetime list \<Rightarrow> licenses \<Rightarrow> licenses" where
  "schedule_license_expiry_check nows ls = foldl (\<lambda>l now. expiry_check_pass now l) ls nows"

text \<open>
  \<^verbatim>\<open>handle_client\<close>, the handler that \<^verbatim>\<open>LicenseServer.run\<close> submits for each connection, on the
  bytes that \<^verbatim>\<open>recv\<close> returned. It never looks at the lease table. Before it answers it
  prints \<^verbatim>\<open>data.decode()\<close>, which raises for bytes that are not UTF-8; the exception is
  caught and nothing is sent.
  \<^verbatim>\<open>
  data = client_socket.recv(1024)
  if not data:
      return
  print(f"Received data: {data.decode()}")
  response_message = {...}
  client_socket.sendall(json.dumps(response_message).encode())
  \<close>
\<close>

definition closed_message :: json where
  "closed_message =
     JObj [(''license_user_name'', JStr ''Server''),
           (''license_valid'', JBool False),
           (''description'', JStr ''Connection with server has been closed.''),
           (''expired'', JNull)]"

definition handle_client :: "byte list \<Rightarrow> json option" where
  "handle_client data =
     (if data = [] then None
      else if \<not> utf8_valid data then None
      else Some closed_message)"

section \<open>Client.py: the token\<close>

text \<open>
  \<^verbatim>\<open>class Response\<close> of Client.py, the cached token. Its first two fields hold whatever the
  caller or the decoded message supplied; the constructor calls \<^verbatim>\<open>expired.isoformat()\<close> on
  every expiry that is not \<^verbatim>\<open>None\<close>, which a \<^verbatim>\<open>datetime\<close> supports and a decoded JSON value
  does not (\<^verbatim>\<open>AttributeError\<close>).
\<close>

record Client_Response =
  license_valid :: json
  description :: json
  expired :: "string option"

datatype expired_arg = Datetime datetime | Json json

definition Client_Response_init :: "json \<Rightarrow> json \<Rightarrow> expired_arg \<Rightarrow> error + Client_Response" where
  "Client_Response_init v d e =
     (case e of
        Json JNull \<Rightarrow> Inr \<lparr> license_valid = v, description = d, expired = None \<rparr>
      | Json _ \<Rightarrow> Inl AttributeError
      | Datetime t \<Rightarrow> Inr \<lparr> license_valid = v, description = d, expired = Some (isoformat t) \<rparr>)"

text \<open>
  \<^verbatim>\<open>Response(**json.loads(response))\<close>: the decoded value must be an object whose keys are
  exactly the constructor's three parameters; an unexpected or a missing keyword is a
  \<^verbatim>\<open>TypeError\<close>.
\<close>

definition Response_params :: "string list" where
  "Response_params = [''license_valid'', ''description'', ''expired'']"

definition Response_kwargs :: "json \<Rightarrow> error + Client_Response" where
  "Response_kwargs v =
     (case v of
        JObj items \<Rightarrow>
          (if list_all (\<lambda>k. k \<in> set Response_params) (map fst items)
              \<and> list_all (\<lambda>k. k \<in> set (map fst items)) Response_params
           then (case (map_of items ''license_valid'', map_of items ''description'',
                       map_of items ''expired'') of
                   (Some lv, Some d, Some e) \<Rightarrow> Client_Response_init lv d (Json e)
                 | _ \<Rightarrow> Inl TypeError)
           else Inl TypeError)
      | _ \<Rightarrow> Inl TypeError)"

text \<open>Python's truth value of a decoded JSON value.\<close>

fun truthy :: "json \<Rightarrow> bool" where
  "truthy JNull = False"
| "truthy (JBool b) = b"
| "truthy (JNum n) = (n \<noteq> 0)"
| "truthy (JStr s) = (s \<noteq> [])"
| "truthy (JArr xs) = (xs \<noteq> [])"
| "truthy (JObj items) = (items \<noteq> [])"

text \<open>
  Timestamps (\<^verbatim>\<open>datetime.timestamp()\<close>, \<^verbatim>\<open>time.time()\<close>) are numbers of seconds since the
  epoch. The two library functions that read a token's expiry are parameters of the
  functions that call them: \<open>parse\<close> for \<^verbatim>\<open>datetime.fromisoformat\<close>, with \<open>None\<close> for its
  \<^verbatim>\<open>ValueError\<close> (what it accepts differs between Python versions), and \<open>ts\<close> for
  \<^verbatim>\<open>datetime.timestamp\<close>, which gives the nearest floating-point number in the local zone or
  raises. Of the exceptions, \<^verbatim>\<open>get_expiry_time\<close> turns \<^verbatim>\<open>ValueError\<close> into \<open>-1\<close>; any other
  leaves it.
  \<^verbatim>\<open>
  def get_expiry_time(self):
      try:
          expiry_date = datetime.fromisoformat(self.expired[:-1]) if self.expired else None
          return expiry_date.timestamp() if expiry_date else -1
      except ValueError:
          return -1
  def is_valid(self):
      expiry_time = self.get_expiry_time()
      return expiry_time > datetime.now(timezone.utc).timestamp()
  \<close>
\<close>

definition get_expiry_time ::
  "(string \<Rightarrow> datetime option) \<Rightarrow> (datetime \<Rightarrow> error + real) \<Rightarrow> Client_Response \<Rightarrow> error + real" where
  "get_expiry_time parse ts r =
     (case expired r of
        None \<Rightarrow> Inr (- 1)
      | Some s \<Rightarrow>
          (if s = [] then Inr (- 1)
           else (case parse (butlast s) of
                   None \<Rightarrow> Inr (- 1)
                 | Some expiry_date \<Rightarrow>
                     (case ts expiry_date of
                        Inl ValueError \<Rightarrow> Inr (- 1)
                      | Inl e \<Rightarrow> Inl e
                      | Inr t \<Rightarrow> Inr t))))"

definition is_valid ::
  "(string \<Rightarrow> datetime option) \<Rightarrow> (datetime \<Rightarrow> error + real) \<Rightarrow> Client_Response \<Rightarrow> real
     \<Rightarrow> error + bool" where
  "is_valid parse ts r now_utc =
     (case get_expiry_time parse ts r of
        Inl e \<Rightarrow> Inl e
      | Inr expiry \<Rightarrow> Inr (now_utc < expiry))"

text \<open>
  \<^verbatim>\<open>datetime.fromisoformat\<close> as Python 3.11 and later read the texts that \<^verbatim>\<open>isoformat()\<close>
  writes, whole or cut short: \<^verbatim>\<open>YYYY-MM-DD\<close>, one separator character, \<^verbatim>\<open>HH:MM:SS\<close>, and
  optionally a point or comma followed by at least one digit of the fraction, of which six
  are kept. The other formats that the function accepts (basic format, week dates, zone
  offsets) are outside this definition, which answers \<open>None\<close> on them.
\<close>

definition is_digit :: "char \<Rightarrow> bool" where
  "is_digit c = (c \<in> set ''0123456789'')"

definition digit_val :: "char \<Rightarrow> int" where
  "digit_val c = int (of_char c) - 48"

definition digits_val :: "string \<Rightarrow> int option" where
  "digits_val s =
     (if s \<noteq> [] \<and> list_all is_digit s
      then Some (foldl (\<lambda>n c. 10 * n + digit_val c) 0 s) else None)"

definition days_in_month :: "int \<Rightarrow> int \<Rightarrow> int" where
  "days_in_month y m =
     (if m = 2 then (if y mod 4 = 0 \<and> (y mod 100 \<noteq> 0 \<or> y mod 400 = 0) then 29 else 28)
      else if m \<in> {4, 6, 9, 11} then 30 else 31)"

definition parse_fraction :: "string \<Rightarrow> int option" where
  "parse_fraction s =
     (case s of
        [] \<Rightarrow> Some 0
      | c # ds \<Rightarrow>
          (if (c = CHR ''.'' \<or> c = CHR '','') \<and> ds \<noteq> [] \<and> list_all is_digit ds
           then map_option (\<lambda>n. n * 10 ^ (6 - length (take 6 ds))) (digits_val (take 6 ds))
           else None))"

definition fromisoformat :: "string \<Rightarrow> datetime option" where
  "fromisoformat s =
     (if length s < 19 \<or> s ! 4 \<noteq> CHR ''-'' \<or> s ! 7 \<noteq> CHR ''-''
         \<or> s ! 13 \<noteq> CHR '':'' \<or> s ! 16 \<noteq> CHR '':'' then None
      else
        (case (digits_val (take 4 s), digits_val (take 2 (drop 5 s)),
               digits_val (take 2 (drop 8 s)), digits_val (take 2 (drop 11 s)),
               digits_val (take 2 (drop 14 s)), digits_val (take 2 (drop 17 s)),
               parse_fraction (drop 19 s)) of
           (Some y, Some m, Some d, Some hh, Some mm, Some ss, Some us) \<Rightarrow>
             (if 1 \<le> y \<and> 1 \<le> m \<and> m \<le> 12 \<and> 1 \<le> d \<and> d \<le> days_in_month y m
                 \<and> hh < 24 \<and> mm < 60 \<and> ss < 60
              then Some (days_from_civil y m d * 86400000000
                         + ((hh * 60 + mm) * 60 + ss) * 1000000 + us)
              else None)
         | _ \<Rightarrow> None))"

text \<open>\<^verbatim>\<open>datetime.timestamp\<close> with the local zone taken to be UTC and no rounding.\<close>

definition timestamp_utc :: "datetime \<Rightarrow> error + real" where
  "timestamp_utc t = Inr (real_of_int t / 1000000)"

section \<open>Client.py: the client object\<close>

text \<open>
  \<^verbatim>\<open>class LicenseClientAPI\<close>. The attributes shared with other classes carry the prefix
  \<open>c_\<close>. \<open>scheduler\<close> is the event queue of the \<^verbatim>\<open>sched.scheduler\<close>, each event with its
  time and priority. \<open>in_flight\<close> counts the threads that \<^verbatim>\<open>request_license_token\<close> has
  started and whose body \<^verbatim>\<open>_request_license_token_thread\<close> has not finished.
\<close>

record LicenseClientAPI =
  c_license_key :: "string option"
  c_license_user_name :: "string option"
  c_server_port :: "int option"
  c_server_address :: "string option"
  current_token :: "Client_Response option"
  scheduler :: "(real \<times> int) list"
  in_flight :: nat

definition LicenseClientAPI_init :: LicenseClientAPI where
  "LicenseClientAPI_init =
     \<lparr> c_license_key = None, c_license_user_name = None, c_server_port = None,
       c_server_address = None, current_token = None, scheduler = [], in_flight = 0 \<rparr>"

definition start :: "LicenseClientAPI \<Rightarrow> string \<Rightarrow> int \<Rightarrow> LicenseClientAPI" where
  "start c server_address server_port =
     c\<lparr>c_server_address := Some server_address, c_server_port := Some server_port\<rparr>"

definition set_license :: "LicenseClientAPI \<Rightarrow> string \<Rightarrow> string \<Rightarrow> LicenseClientAPI" where
  "set_license c name key = c\<lparr>c_license_user_name := Some name, c_license_key := Some key\<rparr>"

text \<open>
  \<^verbatim>\<open>
  def request_license_token(self):
      threading.Thread(target=self._request_license_token_thread).start()
  \<close>
\<close>

definition request_license_token :: "LicenseClientAPI \<Rightarrow> LicenseClientAPI" where
  "request_license_token c = c\<lparr>in_flight := Suc (in_flight c)\<rparr>"

text \<open>
  \<^verbatim>\<open>sched.scheduler.enter(delay, priority, action)\<close> queues the event at its own clock
  reading plus the delay; \<^verbatim>\<open>sched.scheduler.cancel(event)\<close> takes the event to remove as a
  required argument (a call without it is a \<^verbatim>\<open>TypeError\<close>) and raises \<^verbatim>\<open>ValueError\<close> for an
  event that is not queued.
\<close>

definition sched_enter :: "(real \<times> int) list \<Rightarrow> real \<Rightarrow> real \<Rightarrow> int \<Rightarrow> (real \<times> int) list" where
  "sched_enter q time_now delay priority = q @ [(time_now + delay, priority)]"

definition sched_cancel ::
  "(real \<times> int) list \<Rightarrow> (real \<times> int) option \<Rightarrow> error + (real \<times> int) list" where
  "sched_cancel q event =
     (case event of
        None \<Rightarrow> Inl TypeError
      | Some e \<Rightarrow> (if e \<in> set q then Inr (remove1 e q) else Inl ValueError))"

text \<open>
  \<^verbatim>\<open>
  def schedule_token_renewal(self, expiry_time):
      delay = expiry_time - time.time()
      self.scheduler.enter(delay, 1, self.request_license_token)
  \<close>
  \<open>t1\<close> is the reading of \<^verbatim>\<open>time.time()\<close> in the method, \<open>t2\<close> the one inside \<^verbatim>\<open>enter\<close>.
\<close>

definition schedule_token_renewal ::
  "LicenseClientAPI \<Rightarrow> real \<Rightarrow> real \<Rightarrow> real \<Rightarrow> LicenseClientAPI" where
  "schedule_token_renewal c expiry t1 t2 =
     (let delay = expiry - t1
      in c\<lparr>scheduler := sched_enter (scheduler c) t2 delay 1\<rparr>)"

text \<open>
  \<^verbatim>\<open>
  def update_token(self, new_token):
      if new_token and new_token.is_license_valid():
          self.current_token = new_token
          self.schedule_token_renewal(new_token.get_expiry_time())
      else:
          self.current_token = new_token
  \<close>
  The one call passes a \<^verbatim>\<open>Response\<close> object, which is true as a condition. The result is
  the client afterwards, with the exception that left the method, if one did (the token is
  stored before \<^verbatim>\<open>get_expiry_time\<close> can raise).
\<close>

definition update_token ::
  "(string \<Rightarrow> datetime option) \<Rightarrow> (datetime \<Rightarrow> error + real) \<Rightarrow> LicenseClientAPI
     \<Rightarrow> Client_Response \<Rightarrow> real \<Rightarrow> real \<Rightarrow> LicenseClientAPI \<times> error option" where
  "update_token parse ts c new_token t1 t2 =
     (if truthy (license_valid new_token)
      then (let c = c\<lparr>current_token := Some new_token\<rparr>
            in case get_expiry_time parse ts new_token of
                 Inl e \<Rightarrow> (c, Some e)
               | Inr expiry \<Rightarrow> (schedule_token_renewal c expiry t1 t2, None))
      else (c\<lparr>current_token := Some new_token\<rparr>, None))"

text \<open>
  What one round trip of \<^verbatim>\<open>_request_license_token_thread\<close> meets before it decodes the
  reply: an exception (from the socket, from \<^verbatim>\<open>decode('utf-8')\<close> or from \<^verbatim>\<open>json.loads\<close>), an
  empty text, or the value that \<^verbatim>\<open>json.loads\<close> returns.
\<close>

datatype round_trip =
    Raised error
  | Empty
  | Parsed json

definition failure_token :: "string \<Rightarrow> Client_Response" where
  "failure_token d = \<lparr> license_valid = JBool False, description = JStr d, expired = None \<rparr>"

text \<open>
  The handlers of \<^verbatim>\<open>_request_license_token_thread\<close>, in their order: each stores a token
  for the exception it catches.
  \<^verbatim>\<open>
  except ConnectionRefusedError:  ... Response(False, "Server not running", None)
  except json.JSONDecodeError:    ... Response(False, "Invalid JSON response", None)
  except socket.error as e:
      if e.errno == 10054:        ... Response(False, "Connection forcibly closed", None)
      else:                       ... Response(False, "Connection error", None)
  except Exception as e:          ... Response(False, "Connection error", None)
  \<close>
\<close>

definition except_token :: "error \<Rightarrow> Client_Response" where
  "except_token e =
     (case e of
        ConnectionRefusedError \<Rightarrow> failure_token ''Server not running''
      | JSONDecodeError \<Rightarrow> failure_token ''Invalid JSON response''
      | OSError errno \<Rightarrow>
          (if errno = Some 10054 then failure_token ''Connection forcibly closed''
           else failure_token ''Connection error'')
      | _ \<Rightarrow> failure_token ''Connection error'')"

text \<open>
  \<^verbatim>\<open>_request_license_token_thread\<close>: the body of the request thread, on the outcome \<open>rt\<close> of
  its round trip.
  \<^verbatim>\<open>
  if response:
      response_obj = Response(**json.loads(response))
      self.update_token(response_obj)
  else:
      self.current_token = Response(False, "Empty response from server", None)
  \<close>
\<close>

definition request_license_token_thread ::
  "(string \<Rightarrow> datetime option) \<Rightarrow> (datetime \<Rightarrow> error + real) \<Rightarrow> LicenseClientAPI
     \<Rightarrow> round_trip \<Rightarrow> real \<Rightarrow> real \<Rightarrow> LicenseClientAPI" where
  "request_license_token_thread parse ts c rt t1 t2 =
     (let c' =
        (case rt of
           Parsed v \<Rightarrow>
             (case Response_kwargs v of
                Inr response_obj \<Rightarrow>
                  (case update_token parse ts c response_obj t1 t2 of
                     (c1, None) \<Rightarrow> c1
                   | (c1, Some e) \<Rightarrow> c1\<lparr>current_token := Some (except_token e)\<rparr>)
              | Inl e \<Rightarrow> c\<lparr>current_token := Some (except_token e)\<rparr>)
         | Empty \<Rightarrow> c\<lparr>current_token := Some (failure_token ''Empty response from server'')\<rparr>
         | Raised e \<Rightarrow> c\<lparr>current_token := Some (except_token e)\<rparr>)
      in c'\<lparr>in_flight := in_flight c' - 1\<rparr>)"

text \<open>
  \<^verbatim>\<open>
  def get_license_token(self):
      if self.current_token and self.current_token.description in ["Server not running", "Connection error"]:
          return None
      if not self.current_token or not self.current_token.is_valid():
          self.request_license_token()
      return self.current_token
  \<close>
  The result is the exception that leaves the method, or the client afterwards with the
  value returned.
\<close>

definition get_license_token ::
  "(string \<Rightarrow> datetime option) \<Rightarrow> (datetime \<Rightarrow> error + real) \<Rightarrow> LicenseClientAPI \<Rightarrow> real
     \<Rightarrow> error + (LicenseClientAPI \<times> Client_Response option)" where
  "get_license_token parse ts c now_utc =
     (case current_token c of
        None \<Rightarrow> (let c' = request_license_token c in Inr (c', current_token c'))
      | Some tok \<Rightarrow>
          (if description tok \<in> set [JStr ''Server not running'', JStr ''Connection error'']
           then Inr (c, None)
           else (case is_valid parse ts tok now_utc of
                   Inl e \<Rightarrow> Inl e
                 | Inr valid \<Rightarrow>
                     (if \<not> valid
                      then (let c' = request_license_token c in Inr (c', current_token c'))
                      else Inr (c, current_token c)))))"

text \<open>
  \<^verbatim>\<open>
  def stop(self):
      self.scheduler.cancel()
      try:
          with socket.socket(socket.AF_INET, socket.SOCK_STREAM) as sock:
              sock.connect((self.server_address, self.server_port))
              leave_request = Request(self.license_user_name, "STOP")
              sock.sendall(json.dumps(leave_request.__dict__).encode('utf-8'))
      except Exception as e:
          print(e)
      self.current_token = None
      self.license_user_name = None
      self.license_key = None
      self.server_address = None
      self.server_port = 0
  \<close>
  \<open>sent\<close> says whether the connection and the send succeed. The result is the
  exception that leaves the method, or the client afterwards with the message sent, if any.
\<close>

definition leave_request :: "LicenseClientAPI \<Rightarrow> json" where
  "leave_request c =
     JObj [(''license_user_name'', (case c_license_user_name c of Some n \<Rightarrow> JStr n | None \<Rightarrow> JNull)),
           (''license_key'', JStr ''STOP'')]"

definition stop :: "LicenseClientAPI \<Rightarrow> bool \<Rightarrow> error + (LicenseClientAPI \<times> json option)" where
  "stop c sent =
     (case sched_cancel (scheduler c) None of
        Inl e \<Rightarrow> Inl e
      | Inr q \<Rightarrow>
          Inr (c\<lparr>scheduler := q, current_token := None, c_license_user_name := None,
                 c_license_key := None, c_server_address := None, c_server_port := Some 0\<rparr>,
               if sent then Some (leave_request c) else None))"

section \<open>Notions used in the properties\<close>

text \<open>
  The states of the lease table that the server can reach, its operations taken one at a
  time: the table loaded from the roster, then any sequence of served requests and of
  passes of the expiry check. Next to the table, \<open>last_issue\<close> records for each holder the
  last request that set \<^verbatim>\<open>is_used\<close> to true, with its clock reading \<open>now2\<close>: \<open>Completed\<close>
  when the request went on to store the expiry and answer \<^verbatim>\<open>License issued\<close>, \<open>Overflowed\<close>
  when the computation of the expiry raised.
\<close>

datatype issue = Completed datetime | Overflowed datetime

definition issue_time :: "issue \<Rightarrow> datetime" where
  "issue_time ev = (case ev of Completed t \<Rightarrow> t | Overflowed t \<Rightarrow> t)"

definition note_issue ::
  "(string \<rightharpoonup> issue) \<Rightarrow> licenses \<Rightarrow> Request \<Rightarrow> datetime \<Rightarrow> error + Response \<Rightarrow> (string \<rightharpoonup> issue)" where
  "note_issue last_issue ls request now2 res =
     (case (rq_license_user_name request, res) of
        (JStr name, Inr resp) \<Rightarrow>
          (if r_description resp = ''License issued''
           then last_issue(name \<mapsto> Completed now2) else last_issue)
      | (JStr name, Inl OverflowError) \<Rightarrow> last_issue(name \<mapsto> Overflowed now2)
      | _ \<Rightarrow> last_issue)"

inductive reachable ::
  "(string option \<times> int option) list \<Rightarrow> (string \<rightharpoonup> issue) \<Rightarrow> licenses \<Rightarrow> bool"
  for payload :: "(string option \<times> int option) list" where
  loaded: "reachable payload Map.empty (load_licenses payload)"
| served: "reachable payload last_issue ls \<Longrightarrow> handle_request ls request now1 now2 = (ls', res) \<Longrightarrow>
     reachable payload (note_issue last_issue ls request now2 res) ls'"
| checked: "reachable payload last_issue ls \<Longrightarrow> reachable payload last_issue (expiry_check_pass now ls)"

text \<open>A record in use has an expiry, strictly later than the moment it was last set in use.\<close>

definition expiry_after_set :: "(string \<rightharpoonup> issue) \<Rightarrow> licenses \<Rightarrow> string \<Rightarrow> bool" where
  "expiry_after_set last_issue ls name =
     (case ls name of
        None \<Rightarrow> True
      | Some license_info \<Rightarrow>
          (if is_used license_info
           then (case (expiry_time license_info, last_issue name) of
                   (Some e, Some ev) \<Rightarrow> issue_time ev < e
                 | _ \<Rightarrow> False)
           else True))"

text \<open>The invariant of the reachable states: a record in use was set in use by a request
  on record, and if that request completed, the expiry of the record is the clock reading
  of the request plus the record's validation time.\<close>

definition lease_inv :: "(string \<rightharpoonup> issue) \<Rightarrow> licenses \<Rightarrow> bool" where
  "lease_inv last_issue ls =
     (\<forall>n li. ls n = Some li \<longrightarrow> is_used li \<longrightarrow>
        (\<exists>ev. last_issue n = Some ev
           \<and> (\<forall>t. ev = Completed t \<longrightarrow>
                  expiry_time li = Some (t + 1000000 * validation_time li))))"

text \<open>
  The states of the client that \<^verbatim>\<open>main\<close> of Client.py can reach through the methods it calls
  and the request threads they start, for any outcomes of the round trips.
\<close>

inductive client_reachable ::
  "(string \<Rightarrow> datetime option) \<Rightarrow> (datetime \<Rightarrow> error + real) \<Rightarrow> LicenseClientAPI \<Rightarrow> bool"
  for parse :: "string \<Rightarrow> datetime option" and ts :: "datetime \<Rightarrow> error + real" where
  created: "client_reachable parse ts LicenseClientAPI_init"
| started: "client_reachable parse ts c \<Longrightarrow> client_reachable parse ts (start c address port)"
| licensed: "client_reachable parse ts c \<Longrightarrow> client_reachable parse ts (set_license c name key)"
| asked: "client_reachable parse ts c \<Longrightarrow> get_license_token parse ts c now_utc = Inr (c', tok) \<Longrightarrow>
     client_reachable parse ts c'"
| requested: "client_reachable parse ts c \<Longrightarrow> client_reachable parse ts (request_license_token c)"
| answered: "client_reachable parse ts c \<Longrightarrow>
     client_reachable parse ts (request_license_token_thread parse ts c rt t1 t2)"
| stopped: "client_reachable parse ts c \<Longrightarrow> stop c sent = Inr (c', msg) \<Longrightarrow>
     client_reachable parse ts c'"


text \<open>Sample data: a roster with one holder, a table with that holder's lease checked out,
  and a client set up as \<^verbatim>\<open>main\<close> of Client.py does.\<close>

definition roster0 :: "(string option \<times> int option) list" where
  "roster0 = [(Some ''alice'', Some 5)]"

definition leased0 :: licenses where
  "leased0 = [''alice'' \<mapsto>
     \<lparr>license_user_name = ''alice'', validation_time = 5, expiry_time = Some 5000020,
       is_used = True\<rparr>]"



section \<open>Auxiliary facts\<close>

lemma generate_key_alice: "generate_key ''alice'' = ''6384e2b2184bcbf58eccf10ca7a6563c''"
  by code_simp

lemma length_le_bytes: "length (le_bytes k w) = k"
  by (simp add: le_bytes_def)

lemma length_md5_digest: "length (md5_digest m) = 16"
  by (simp add: md5_digest_def length_le_bytes split: prod.splits)

lemma length_hexlify: "length (hexlify bs) = 2 * length bs"
  by (induction bs) (simp_all add: hexlify_def)

lemma length_generate_key: "length (ClientHandler_generate_key u) = 32"
  by (simp add: ClientHandler_generate_key_def md5_hexdigest_def length_hexlify length_md5_digest)

lemma generate_key_not_STOP: "ClientHandler_generate_key u \<noteq> ''STOP''"
proof
  assume "ClientHandler_generate_key u = ''STOP''"
  then have "length (ClientHandler_generate_key u) = 4" by simp
  then show False by (simp add: length_generate_key)
qed

lemma load_item_unused:
  "\<forall>n li. ls n = Some li \<longrightarrow> \<not> is_used li \<Longrightarrow> load_item ls item n = Some li \<Longrightarrow> \<not> is_used li"
  by (auto simp: load_item_def LicenseInfo_init_def Let_def split: if_splits)

lemma foldl_load_unused:
  "\<forall>n li. ls n = Some li \<longrightarrow> \<not> is_used li \<Longrightarrow> foldl load_item ls payload n = Some li
     \<Longrightarrow> \<not> is_used li"
proof (induction payload arbitrary: ls n li)
  case Nil
  then show ?case by simp
next
  case (Cons item payload)
  have "\<forall>n li. load_item ls item n = Some li \<longrightarrow> \<not> is_used li"
    using Cons.prems(1) load_item_unused by blast
  then show ?case using Cons.IH Cons.prems(2) by simp
qed

lemma load_licenses_unused: "load_licenses payload n = Some li \<Longrightarrow> \<not> is_used li"
  unfolding load_licenses_def using foldl_load_unused [of Map.empty] by simp

lemma roster0_alice: "load_licenses roster0 ''alice'' = Some (LicenseInfo_init ''alice'' 5)"
  by (simp add: roster0_def load_licenses_def load_item_def Let_def)

lemma calculate_expiry_date_value:
  "calculate_expiry_date now v = Inr e \<Longrightarrow> e = now + 1000000 * v"
  by (auto simp: calculate_expiry_date_def timedelta_seconds_def datetime_add_def
      split: if_splits sum.splits)

lemma lease_inv_served:
  assumes "lease_inv last_issue ls" and "handle_request ls request now1 now2 = (ls', res)"
  shows "lease_inv (note_issue last_issue ls request now2 res) ls'"
proof (cases "rq_license_user_name request")
  case (JStr name)
  show ?thesis
  proof (cases "ls name")
    case None
    with JStr assms show ?thesis
      by (auto simp: handle_request_def note_issue_def Response_init_def)
  next
    case (Some li)
    show ?thesis
    proof (cases "JStr (ClientHandler_generate_key name) \<noteq> rq_license_key request")
      case True
      with JStr Some assms show ?thesis
        by (auto simp: handle_request_def note_issue_def Response_init_def)
    next
      case key: False
      show ?thesis
      proof (cases "\<not> is_used li \<or> expired_before li now1")
        case False
        with key JStr Some assms show ?thesis
          by (auto simp: handle_request_def note_issue_def Response_init_def)
      next
        case True
        show ?thesis
        proof (cases "calculate_expiry_date now2 (validation_time li)")
          case (Inl e)
          then have e: "e = OverflowError"
            by (auto simp: calculate_expiry_date_def timedelta_seconds_def datetime_add_def
                split: if_splits sum.splits)
          from True key JStr Some assms(2) Inl e
          have r: "ls' = ls(name \<mapsto> li\<lparr>is_used := True\<rparr>)" "res = Inl OverflowError"
            by (auto simp: handle_request_def Let_def)
          then have n: "note_issue last_issue ls request now2 res
                          = last_issue(name \<mapsto> Overflowed now2)"
            using JStr by (simp add: note_issue_def)
          show ?thesis using assms(1) unfolding n r(1) lease_inv_def by auto
        next
          case (Inr expiry)
          then have ex: "expiry = now2 + 1000000 * validation_time li"
            by (rule calculate_expiry_date_value)
          from True key JStr Some assms(2) Inr
          have r: "ls' = ls(name \<mapsto> li\<lparr>is_used := True, expiry_time := Some expiry\<rparr>)"
            "res = Inr (Response_init (JStr name) True ''License issued'' (Some expiry))"
            by (auto simp: handle_request_def Let_def)
          then have n: "note_issue last_issue ls request now2 res
                          = last_issue(name \<mapsto> Completed now2)"
            using JStr by (simp add: note_issue_def Response_init_def)
          show ?thesis using assms(1) ex unfolding n r(1) lease_inv_def by auto
        qed
      qed
    qed
  qed
qed (use assms in \<open>auto simp: handle_request_def note_issue_def Response_init_def\<close>)

lemma lease_inv_checked:
  "lease_inv last_issue ls \<Longrightarrow> lease_inv last_issue (expiry_check_pass now ls)"
  by (auto simp: lease_inv_def expiry_check_pass_def expiry_check_one_def split: if_splits)

lemma reachable_inv: "reachable payload last_issue ls \<Longrightarrow> lease_inv last_issue ls"
proof (induction rule: reachable.induct)
  case loaded
  then show ?case by (auto simp: lease_inv_def dest: load_licenses_unused)
next
  case (served last_issue ls request now1 now2 ls' res)
  then show ?case by (simp add: lease_inv_served)
next
  case (checked last_issue ls now)
  then show ?case by (simp add: lease_inv_checked)
qed







lemma issued_roster0:
  "handle_request (load_licenses roster0)
     \<lparr>rq_license_user_name = JStr ''alice'',
       rq_license_key = JStr (ClientHandler_generate_key ''alice'')\<rparr> 10 20 =
   ((load_licenses roster0)(''alice'' \<mapsto>
       \<lparr>license_user_name = ''alice'', validation_time = 5, expiry_time = Some 5000020,
         is_used = True\<rparr>),
    Inr \<lparr>r_license_user_name = JStr ''alice'', r_license_valid = True,
          r_description = ''License issued'', r_expired = Some (isoformat 5000020)\<rparr>)"
  using roster0_alice
  by (simp add: handle_request_def Response_init_def Let_def LicenseInfo_init_def
      calculate_expiry_date_def timedelta_seconds_def datetime_add_def datetime_min_def
      datetime_max_def)

lemma isoformat_2030: "isoformat 1893456000500000 = ''2030-01-01T00:00:00.500000''"
  by code_simp

lemma fromisoformat_2030: "fromisoformat ''2030-01-01T00:00:00.50000'' = Some 1893456000500000"
  by code_simp

text \<open>
  Outside the tokens that the client builds for itself, \<^verbatim>\<open>is_valid()\<close> does not read the
  valid flag: a token built with the flag false and an expiry in 2030 is reported valid in
  2024 (with the parser of Python 3.11 and later).
\<close>

lemma is_valid_ignores_flag:
  "is_valid parse ts (r\<lparr>license_valid := v\<rparr>) now_utc = is_valid parse ts r now_utc"
  by (simp add: is_valid_def get_expiry_time_def)

lemma built_token_flag_ignored:
  "Client_Response_init (JBool False) (JStr ''Token not found'') (Datetime 1893456000500000)
     = Inr \<lparr>license_valid = JBool False, description = JStr ''Token not found'',
            expired = Some ''2030-01-01T00:00:00.500000''\<rparr>
   \<and> is_valid fromisoformat timestamp_utc
        \<lparr>license_valid = JBool False, description = JStr ''Token not found'',
          expired = Some ''2030-01-01T00:00:00.500000''\<rparr> 1730678400 = Inr True"
  by (simp add: Client_Response_init_def isoformat_2030 is_valid_def get_expiry_time_def
        fromisoformat_2030 timestamp_utc_def)

section \<open>The lease table\<close>

text \<open>
  C6, as the code has it. A rostered holder whose record is not in use, or is in use with
  an expiry that the clock has passed, asks with the correct credential, and the validation
  time is one that \<^verbatim>\<open>timedelta\<close> takes and that leads from the clock reading \<open>now2\<close> to a
  time within the range of \<^verbatim>\<open>datetime\<close>: the request is answered \<^verbatim>\<open>License issued\<close> with
  \<^verbatim>\<open>license_valid\<close> true and the expiry \<open>now2 + validation_time\<close>, and the record is stored in
  use with that expiry. (\<open>now1 = now2\<close> is the case of one clock reading for the whole call.)
\<close>

theorem issue_when_free_or_expired:
  assumes "ls name = Some li"
    and "\<not> is_used li \<or> (\<exists>e. expiry_time li = Some e \<and> e < now1)"
    and "- 999999999 \<le> validation_time li div 86400"
    and "validation_time li div 86400 \<le> 999999999"
    and "datetime_min \<le> now2 + 1000000 * validation_time li"
    and "now2 + 1000000 * validation_time li \<le> datetime_max"
  shows "handle_request ls
           \<lparr>rq_license_user_name = JStr name,
             rq_license_key = JStr (ClientHandler_generate_key name)\<rparr> now1 now2 =
     (ls(name \<mapsto> li\<lparr>is_used := True,
                     expiry_time := Some (now2 + 1000000 * validation_time li)\<rparr>),
      Inr \<lparr>r_license_user_name = JStr name, r_license_valid = True,
            r_description = ''License issued'',
            r_expired = Some (isoformat (now2 + 1000000 * validation_time li))\<rparr>)"
  using assms
  by (auto simp: handle_request_def expired_before_def Response_init_def Let_def
      calculate_expiry_date_def timedelta_seconds_def datetime_add_def)

theorem issue_when_free_or_expired_witness:
  "load_licenses roster0 ''alice'' = Some (LicenseInfo_init ''alice'' 5)
   \<and> \<not> is_used (LicenseInfo_init ''alice'' 5)
   \<and> - 999999999 \<le> validation_time (LicenseInfo_init ''alice'' 5) div 86400
   \<and> validation_time (LicenseInfo_init ''alice'' 5) div 86400 \<le> 999999999
   \<and> datetime_min \<le> 20 + 1000000 * validation_time (LicenseInfo_init ''alice'' 5)
   \<and> 20 + 1000000 * validation_time (LicenseInfo_init ''alice'' 5) \<le> datetime_max
   \<and> handle_request (load_licenses roster0)
        \<lparr>rq_license_user_name = JStr ''alice'',
          rq_license_key = JStr (ClientHandler_generate_key ''alice'')\<rparr> 10 20 =
      ((load_licenses roster0)(''alice'' \<mapsto>
          \<lparr>license_user_name = ''alice'', validation_time = 5, expiry_time = Some 5000020,
            is_used = True\<rparr>),
       Inr \<lparr>r_license_user_name = JStr ''alice'', r_license_valid = True,
             r_description = ''License issued'', r_expired = Some (isoformat 5000020)\<rparr>)"
proof -
  have h1: "load_licenses roster0 ''alice'' = Some (LicenseInfo_init ''alice'' 5)"
    by (rule roster0_alice)
  have h2: "\<not> is_used (LicenseInfo_init ''alice'' 5)"
    by (simp add: LicenseInfo_init_def)
  have h3: "- 999999999 \<le> validation_time (LicenseInfo_init ''alice'' 5) div 86400"
    "validation_time (LicenseInfo_init ''alice'' 5) div 86400 \<le> 999999999"
    "datetime_min \<le> 20 + 1000000 * validation_time (LicenseInfo_init ''alice'' 5)"
    "20 + 1000000 * validation_time (LicenseInfo_init ''alice'' 5) \<le> datetime_max"
    by (simp_all add: LicenseInfo_init_def datetime_min_def datetime_max_def)
  show ?thesis
    using issue_when_free_or_expired
            [of "load_licenses roster0" "''alice''" "LicenseInfo_init ''alice'' 5" 10 20] h1 h2 h3
    by (simp add: LicenseInfo_init_def)
qed

text \<open>
  C6 as stated fails for a holder rostered with a validation time of \<open>10\<^sup>1\<^sup>2\<close> seconds: on
  2024-11-04 the expiry would lie beyond the year 9999, the addition raises
  \<^verbatim>\<open>OverflowError\<close>, no response is sent, and the record is left in use with no expiry.
\<close>

theorem issue_overflows:
  "handle_request (load_licenses [(Some ''alice'', Some 1000000000000)])
     \<lparr>rq_license_user_name = JStr ''alice'',
       rq_license_key = JStr (ClientHandler_generate_key ''alice'')\<rparr>
     1730678400000000 1730678400000000 =
   ((load_licenses [(Some ''alice'', Some 1000000000000)])(''alice'' \<mapsto>
       \<lparr>license_user_name = ''alice'', validation_time = 1000000000000, expiry_time = None,
         is_used = True\<rparr>),
    Inl OverflowError)"
  by (simp add: handle_request_def load_licenses_def load_item_def Let_def LicenseInfo_init_def
      calculate_expiry_date_def timedelta_seconds_def datetime_add_def datetime_min_def
      datetime_max_def)

text \<open>
  C7. A holder whose lease is in use and whose expiry the clock has not passed asks with
  the correct credential: the request is answered \<^verbatim>\<open>License already in use\<close> with the stored
  expiry, and the lease table is left as it was. The request carries no identity of the
  caller, so this holds for any caller.
\<close>

theorem in_use_not_extended:
  assumes "ls name = Some li" and "is_used li" and "expiry_time li = Some e" and "\<not> e < now1"
  shows "handle_request ls
           \<lparr>rq_license_user_name = JStr name,
             rq_license_key = JStr (ClientHandler_generate_key name)\<rparr> now1 now2 =
     (ls, Inr \<lparr>r_license_user_name = JStr name, r_license_valid = True,
               r_description = ''License already in use'', r_expired = Some (isoformat e)\<rparr>)"
  using assms by (auto simp: handle_request_def expired_before_def Response_init_def Let_def)

theorem in_use_not_extended_witness:
  "leased0 ''alice'' = Some \<lparr>license_user_name = ''alice'', validation_time = 5,
                              expiry_time = Some 5000020, is_used = True\<rparr>
   \<and> \<not> (5000020::int) < 30
   \<and> handle_request leased0
        \<lparr>rq_license_user_name = JStr ''alice'',
          rq_license_key = JStr (ClientHandler_generate_key ''alice'')\<rparr> 30 40 =
      (leased0, Inr \<lparr>r_license_user_name = JStr ''alice'', r_license_valid = True,
         r_description = ''License already in use'', r_expired = Some (isoformat 5000020)\<rparr>)"
proof -
  have h1: "leased0 ''alice'' = Some \<lparr>license_user_name = ''alice'', validation_time = 5,
                                       expiry_time = Some 5000020, is_used = True\<rparr>"
    by (simp add: leased0_def)
  show ?thesis
    using in_use_not_extended
            [of leased0 "''alice''" "\<lparr>license_user_name = ''alice'', validation_time = 5,
                 expiry_time = Some 5000020, is_used = True\<rparr>" 5000020 30 40] h1
    by simp
qed

text \<open>
  C9, as the code has it. In every reachable state of the lease table, a record in use was
  set in use by a request on record; if that request completed, the record has an expiry,
  which is the clock reading of the request plus the record's validation time, and which
  lies strictly after that reading when the validation time is positive.
\<close>

theorem lease_expiry_from_issue:
  assumes "reachable payload last_issue ls" and "ls name = Some li" and "is_used li"
  shows "\<exists>ev. last_issue name = Some ev
           \<and> (\<forall>t. ev = Completed t \<longrightarrow>
                  expiry_time li = Some (t + 1000000 * validation_time li)
                  \<and> (0 < validation_time li \<longrightarrow> expiry_after_set last_issue ls name))"
proof -
  from reachable_inv [OF assms(1)] assms(2,3)
  obtain ev where ev: "last_issue name = Some ev"
      "\<forall>t. ev = Completed t \<longrightarrow> expiry_time li = Some (t + 1000000 * validation_time li)"
    unfolding lease_inv_def by blast
  have "\<forall>t. ev = Completed t \<longrightarrow> 0 < validation_time li
          \<longrightarrow> expiry_after_set last_issue ls name"
    using ev assms(2,3) by (simp add: expiry_after_set_def issue_time_def)
  with ev show ?thesis by blast
qed

theorem lease_expiry_from_issue_witness:
  "reachable roster0 [''alice'' \<mapsto> Completed 20]
     (fst (handle_request (load_licenses roster0)
        \<lparr>rq_license_user_name = JStr ''alice'',
          rq_license_key = JStr (ClientHandler_generate_key ''alice'')\<rparr> 10 20))
   \<and> fst (handle_request (load_licenses roster0)
        \<lparr>rq_license_user_name = JStr ''alice'',
          rq_license_key = JStr (ClientHandler_generate_key ''alice'')\<rparr> 10 20) ''alice''
      = Some \<lparr>license_user_name = ''alice'', validation_time = 5, expiry_time = Some 5000020,
               is_used = True\<rparr>
   \<and> (0::int) < 5
   \<and> expiry_after_set [''alice'' \<mapsto> Completed 20]
     (fst (handle_request (load_licenses roster0)
        \<lparr>rq_license_user_name = JStr ''alice'',
          rq_license_key = JStr (ClientHandler_generate_key ''alice'')\<rparr> 10 20))
     ''alice''"
proof -
  let ?rq = "\<lparr>rq_license_user_name = JStr ''alice'',
               rq_license_key = JStr (ClientHandler_generate_key ''alice'')\<rparr>"
  let ?li = "\<lparr>license_user_name = ''alice'', validation_time = 5, expiry_time = Some 5000020,
               is_used = True\<rparr>"
  have r: "reachable roster0 [''alice'' \<mapsto> Completed 20]
             (fst (handle_request (load_licenses roster0) ?rq 10 20))"
    using reachable.served [OF reachable.loaded issued_roster0]
    by (simp add: issued_roster0 note_issue_def)
  have g: "fst (handle_request (load_licenses roster0) ?rq 10 20) ''alice'' = Some ?li"
    by (simp add: issued_roster0)
  have u: "is_used ?li" by simp
  show ?thesis
    using lease_expiry_from_issue [OF r g u] r g by simp
qed

text \<open>
  C9 as stated fails for a holder whose roster entry has no \<^verbatim>\<open>ValidationTime\<close> (the default
  0): the lease issued at the reading 20 expires at 20, which is not strictly later.
\<close>

theorem zero_validity_not_in_future:
  "reachable [(Some ''alice'', None)] [''alice'' \<mapsto> Completed 20]
     (fst (handle_request (load_licenses [(Some ''alice'', None)])
        \<lparr>rq_license_user_name = JStr ''alice'',
          rq_license_key = JStr (ClientHandler_generate_key ''alice'')\<rparr> 10 20))
   \<and> \<not> expiry_after_set [''alice'' \<mapsto> Completed 20]
     (fst (handle_request (load_licenses [(Some ''alice'', None)])
        \<lparr>rq_license_user_name = JStr ''alice'',
          rq_license_key = JStr (ClientHandler_generate_key ''alice'')\<rparr> 10 20))
     ''alice''"
proof -
  let ?P = "[(Some ''alice'', None)] :: (string option \<times> int option) list"
  let ?rq = "\<lparr>rq_license_user_name = JStr ''alice'',
               rq_license_key = JStr (ClientHandler_generate_key ''alice'')\<rparr>"
  have l: "load_licenses ?P ''alice'' = Some (LicenseInfo_init ''alice'' 0)"
    by (simp add: load_licenses_def load_item_def Let_def)
  have hr: "handle_request (load_licenses ?P) ?rq 10 20 =
     ((load_licenses ?P)(''alice'' \<mapsto> \<lparr>license_user_name = ''alice'', validation_time = 0,
          expiry_time = Some 20, is_used = True\<rparr>),
      Inr \<lparr>r_license_user_name = JStr ''alice'', r_license_valid = True,
            r_description = ''License issued'', r_expired = Some (isoformat 20)\<rparr>)"
    using l by (simp add: handle_request_def Response_init_def Let_def LicenseInfo_init_def
        calculate_expiry_date_def timedelta_seconds_def datetime_add_def datetime_min_def
        datetime_max_def)
  have "reachable ?P [''alice'' \<mapsto> Completed 20]
          (fst (handle_request (load_licenses ?P) ?rq 10 20))"
    using reachable.served [OF reachable.loaded hr] by (simp add: hr note_issue_def)
  moreover have "\<not> expiry_after_set [''alice'' \<mapsto> Completed 20]
      (fst (handle_request (load_licenses ?P) ?rq 10 20)) ''alice''"
    by (simp add: hr expiry_after_set_def issue_time_def)
  ultimately show ?thesis by blast
qed

section \<open>The disconnect notice\<close>

text \<open>
  C1, as the code has it. Neither server recognises the marker. \<^verbatim>\<open>ClientHandler.run\<close> passes a
  request whose credential is \<^verbatim>\<open>STOP\<close> to \<^verbatim>\<open>handle_request\<close> as it does any request: the lease
  table is left as it was, an unknown holder is answered \<^verbatim>\<open>Token not found\<close>, and for a
  rostered holder the credential is compared and the answer is \<^verbatim>\<open>Invalid key\<close>. The handler
  \<^verbatim>\<open>handle_client\<close>, the one that \<^verbatim>\<open>LicenseServer.run\<close> submits, compares no credential for any
  request: it sends its one fixed message for data that is not empty and is UTF-8, and
  nothing otherwise.
\<close>

theorem stop_request_handled_as_request:
  "ClientHandler_run ls
     (Value (JObj [(''license_user_name'', JStr name), (''license_key'', JStr ''STOP'')]))
     now1 now2 =
     (ls, Inr \<lparr>r_license_user_name = JStr name, r_license_valid = False,
               r_description = (if ls name = None then ''Token not found'' else ''Invalid key''),
               r_expired = None\<rparr>)
   \<and> handle_client data = (if data \<noteq> [] \<and> utf8_valid data then Some closed_message else None)"
  by (auto simp: ClientHandler_run_def Request_kwargs_def Request_params_def handle_request_def
      Response_init_def generate_key_not_STOP handle_client_def split: option.splits)

theorem stop_request_handled_as_request_witness:
  "ClientHandler_run (load_licenses roster0)
     (Value (JObj [(''license_user_name'', JStr ''alice''), (''license_key'', JStr ''STOP'')]))
     10 20 =
     (load_licenses roster0,
      Inr \<lparr>r_license_user_name = JStr ''alice'', r_license_valid = False,
            r_description = ''Invalid key'', r_expired = None\<rparr>)
   \<and> handle_client [0x7B, 0x7D] = Some closed_message
   \<and> handle_client [0xFF] = None"
  using stop_request_handled_as_request [of "load_licenses roster0" "''alice''" 10 20 "[0x7B, 0x7D]"]
        stop_request_handled_as_request [of "load_licenses roster0" "''alice''" 10 20 "[0xFF]"]
  by (simp add: roster0_alice)

text \<open>
  C1 as stated fails: the notice for the rostered holder \<^verbatim>\<open>alice\<close>, received by
  \<^verbatim>\<open>ClientHandler.run\<close>, reaches the credential check of \<^verbatim>\<open>handle_request\<close> and is answered
  \<^verbatim>\<open>Invalid key\<close>.
\<close>

theorem stop_request_invalid_key:
  "snd (ClientHandler_run (load_licenses [(Some ''alice'', Some 5)])
     (Value (JObj [(''license_user_name'', JStr ''alice''), (''license_key'', JStr ''STOP'')]))
     0 0) =
   Inr \<lparr>r_license_user_name = JStr ''alice'', r_license_valid = False,
         r_description = ''Invalid key'', r_expired = None\<rparr>"
  by (simp add: ClientHandler_run_def Request_kwargs_def Request_params_def handle_request_def
        load_licenses_def load_item_def Response_init_def Let_def generate_key_not_STOP)

section \<open>The two credential generators\<close>

text \<open>
  C10. The generator of the client and the generator of the server give the same key for
  every username, so a request for a rostered holder that carries the client's key passes
  the server's comparison: it is never answered \<^verbatim>\<open>Invalid key\<close>. Its answer has
  \<^verbatim>\<open>license_valid\<close> true, unless the computation of the new expiry, which comes after the
  comparison, raises \<^verbatim>\<open>OverflowError\<close>.
\<close>

theorem client_key_accepted:
  "generate_key username = ClientHandler_generate_key username
   \<and> (ls username = Some li \<longrightarrow>
        (case snd (handle_request ls
                \<lparr>rq_license_user_name = JStr username,
                  rq_license_key = JStr (generate_key username)\<rparr> now1 now2) of
           Inr resp \<Rightarrow> r_license_valid resp \<and> r_description resp \<noteq> ''Invalid key''
         | Inl e \<Rightarrow> e = OverflowError
                    \<and> calculate_expiry_date now2 (validation_time li) = Inl OverflowError))"
proof -
  have eq: "generate_key username = ClientHandler_generate_key username"
    by (simp add: generate_key_def ClientHandler_generate_key_def)
  have ov: "\<And>e. calculate_expiry_date now2 (validation_time li) = Inl e \<Longrightarrow> e = OverflowError"
    by (auto simp: calculate_expiry_date_def timedelta_seconds_def datetime_add_def
        split: if_splits sum.splits)
  show ?thesis
    using ov
    by (auto simp: eq handle_request_def Response_init_def Let_def split: sum.splits)
qed

theorem client_key_accepted_witness:
  "generate_key ''alice'' = ClientHandler_generate_key ''alice''
   \<and> load_licenses roster0 ''alice'' = Some (LicenseInfo_init ''alice'' 5)
   \<and> (case snd (handle_request (load_licenses roster0)
                \<lparr>rq_license_user_name = JStr ''alice'',
                  rq_license_key = JStr (generate_key ''alice'')\<rparr> 10 20) of
         Inr resp \<Rightarrow> r_license_valid resp \<and> r_description resp \<noteq> ''Invalid key''
       | Inl e \<Rightarrow> e = OverflowError
                  \<and> calculate_expiry_date 20 (validation_time (LicenseInfo_init ''alice'' 5))
                      = Inl OverflowError)
   \<and> snd (handle_request (load_licenses roster0)
          \<lparr>rq_license_user_name = JStr ''alice'',
            rq_license_key = JStr (generate_key ''alice'')\<rparr> 10 20)
      = Inr \<lparr>r_license_user_name = JStr ''alice'', r_license_valid = True,
             r_description = ''License issued'', r_expired = Some (isoformat 5000020)\<rparr>"
proof -
  note t = client_key_accepted
             [where username = "''alice''" and ls = "load_licenses roster0"
                and li = "LicenseInfo_init ''alice'' 5" and ?now1.0 = 10 and ?now2.0 = 20]
  have k: "generate_key ''alice'' = ClientHandler_generate_key ''alice''"
    by (rule conjunct1 [OF t])
  have c: "case snd (handle_request (load_licenses roster0)
                \<lparr>rq_license_user_name = JStr ''alice'',
                  rq_license_key = JStr (generate_key ''alice'')\<rparr> 10 20) of
         Inr resp \<Rightarrow> r_license_valid resp \<and> r_description resp \<noteq> ''Invalid key''
       | Inl e \<Rightarrow> e = OverflowError
                  \<and> calculate_expiry_date 20 (validation_time (LicenseInfo_init ''alice'' 5))
                      = Inl OverflowError"
    by (rule mp [OF conjunct2 [OF t] roster0_alice])
  have i: "snd (handle_request (load_licenses roster0)
          \<lparr>rq_license_user_name = JStr ''alice'',
            rq_license_key = JStr (generate_key ''alice'')\<rparr> 10 20)
      = Inr \<lparr>r_license_user_name = JStr ''alice'', r_license_valid = True,
             r_description = ''License issued'', r_expired = Some (isoformat 5000020)\<rparr>"
    using k issued_roster0 by simp
  show ?thesis using k c i roster0_alice by blast
qed

section \<open>The client\<close>



text \<open>
  C3 fails on the code. Every response that the server encodes with \<^verbatim>\<open>to_dict\<close> carries the
  key \<^verbatim>\<open>license_user_name\<close>, which the constructor of the client's \<^verbatim>\<open>Response\<close> does not
  take: decoding raises \<^verbatim>\<open>TypeError\<close>, and the request thread caches the token
  \<^verbatim>\<open>Connection error\<close> in place of the response. A message with just the three keys of
  the constructor and an expiry text fails as well, with \<^verbatim>\<open>AttributeError\<close>: the constructor
  calls \<^verbatim>\<open>isoformat()\<close> on the text.
\<close>

theorem server_response_not_decodable:
  "Response_kwargs (to_dict r) = Inl TypeError
   \<and> current_token (request_license_token_thread parse ts c (Parsed (to_dict r)) t1 t2)
       = Some (failure_token ''Connection error'')
   \<and> Response_kwargs (JObj [(''license_valid'', lv), (''description'', d), (''expired'', JStr s)])
       = Inl AttributeError"
  by (simp add: Response_kwargs_def to_dict_def Response_params_def
        request_license_token_thread_def Client_Response_init_def except_token_def)

text \<open>
  C4, as the code has it. \<^verbatim>\<open>request_license_token\<close> starts a request thread on every call,
  whether or not another one is in flight: after \<open>n\<close> calls with no thread finished in
  between, \<open>n\<close> more requests are in flight.
\<close>

theorem every_call_starts_a_request:
  "in_flight ((request_license_token ^^ n) c) = in_flight c + n"
  by (induction n) (simp_all add: request_license_token_def)

text \<open>C4 as stated fails: two calls in a row on a fresh client leave two requests in flight.\<close>

theorem two_requests_in_flight:
  "in_flight (request_license_token (request_license_token
      (set_license (start LicenseClientAPI_init ''127.0.0.1'' 5000) ''alice''
         (generate_key ''alice'')))) = 2"
  by (simp add: request_license_token_def set_license_def start_def LicenseClientAPI_init_def)

text \<open>
  C5 fails on the code. \<^verbatim>\<open>stop()\<close> begins with \<^verbatim>\<open>self.scheduler.cancel()\<close>, a call without the
  required argument and outside the \<^verbatim>\<open>try\<close>: in every state of the client, and whatever the
  network does, \<^verbatim>\<open>stop()\<close> raises \<^verbatim>\<open>TypeError\<close>, sends nothing and clears nothing.
\<close>

theorem stop_raises_TypeError: "stop c sent = Inl TypeError"
  by (simp add: stop_def sched_cancel_def)

text \<open>
  C8 fails on the code. When the server answers a request with a failure (\<^verbatim>\<open>Token not found\<close>
  or \<^verbatim>\<open>Invalid key\<close>, sent with \<^verbatim>\<open>license_valid\<close> false and no expiry), the request thread does
  not cache that token: decoding the reply raises, and the token cached is
  \<^verbatim>\<open>Connection error\<close>. No renewal is armed, and from then on \<^verbatim>\<open>get_license_token\<close> returns
  nothing and starts no request, as after a failure of the connection.
\<close>

theorem failure_reply_cached_as_connection_error:
  "request_license_token_thread parse ts c
     (Parsed (to_dict (Response_init name False descr None))) t1 t2
     = c\<lparr>current_token := Some (failure_token ''Connection error''),
          in_flight := in_flight c - 1\<rparr>
   \<and> get_license_token parse ts
       (c\<lparr>current_token := Some (failure_token ''Connection error''),
           in_flight := in_flight c - 1\<rparr>) now_utc
     = Inr (c\<lparr>current_token := Some (failure_token ''Connection error''),
               in_flight := in_flight c - 1\<rparr>, None)"
  by (simp add: request_license_token_thread_def Response_kwargs_def to_dict_def
        Response_params_def Response_init_def except_token_def get_license_token_def
        failure_token_def)

end
